theory Spec2Isabelle
  imports Main "HOL-Library.Sublist" "HOL-Library.Word"
begin

section \<open>The transcription tester of script.js\<close>

text \<open>
  The script is one class, \<^verbatim>\<open>TranscriptionTester\<close>, whose handler uploads the selected
  audio file and writes the outcome into the page. The model below keeps the class's
  method names. The browser is the environment: what \<^verbatim>\<open>fetch\<close> answers, what
  \<^verbatim>\<open>response.json()\<close> yields and the wording of the engine's own \<^verbatim>\<open>TypeError\<close>s are
  inputs, not part of the script.
\<close>

subsection \<open>JavaScript values\<close>

text \<open>
  A thrown value. Everything the script can catch is an \<^verbatim>\<open>Error\<close> object (its own
  \<^verbatim>\<open>new Error(...)\<close>, the rejection of \<^verbatim>\<open>fetch\<close>, the rejection of
  \<^verbatim>\<open>response.json()\<close>, a \<^verbatim>\<open>TypeError\<close> of the engine), so it has a name and a message.
\<close>

datatype js_error = Thrown (error_name: string) (message: string)

text \<open>
  A JSON number becomes an IEEE double. The script observes two things of a number only:
  whether it is falsy (plus or minus zero; JSON has no NaN) and its \<^verbatim>\<open>ToString\<close> text.
  The number is kept as these two observations.
\<close>

datatype js_number = Double (is_zero: bool) (decimal: string)

text \<open>
  The values \<^verbatim>\<open>response.json()\<close> can resolve to, and \<^verbatim>\<open>undefined\<close> for a property
  that is not there. An object is the list of its own properties, one entry per key
  (\<^verbatim>\<open>JSON.parse\<close> has already settled duplicate keys).
\<close>

datatype jsval =
    Undefined
  | Null
  | JBool bool
  | JNum js_number
  | JStr string
  | JArr "jsval list"
  | JObj "(string \<times> jsval) list"

subsection \<open>The browser\<close>

record audio_file =
  file_name :: string
  file_type :: string
  file_bytes :: "8 word list"

text \<open>A \<^verbatim>\<open>FormData\<close>: its entries in the order they were appended.\<close>

type_synonym form_data = "(string \<times> audio_file) list"

text \<open>The second argument of \<^verbatim>\<open>fetch\<close>: the keys \<^verbatim>\<open>method\<close> and \<^verbatim>\<open>body\<close>.\<close>

record request_init =
  req_method :: string
  req_body :: form_data

text \<open>
  A \<^verbatim>\<open>Response\<close>: \<^verbatim>\<open>json\<close> is what \<^verbatim>\<open>response.json()\<close> settles to, a rejection
  (\<open>Inl\<close>) when the body is not JSON.
\<close>

record response =
  status :: nat
  statusText :: string
  json :: "js_error + jsval"

text \<open>\<^verbatim>\<open>Response.ok\<close> is true exactly for the statuses 200 to 299.\<close>

definition ok :: "response \<Rightarrow> bool" where
  "ok r = (200 \<le> status r \<and> status r \<le> 299)"

text \<open>
  The environment of one run: the origin of the page, the settlement of \<^verbatim>\<open>fetch\<close> for a
  given URL and init (\<open>Inl\<close> is a rejection before any response), and the two
  \<^verbatim>\<open>TypeError\<close>s of the engine the script can run into: reading a property of
  \<^verbatim>\<open>null\<close> or \<^verbatim>\<open>undefined\<close>, and converting an object to a primitive.
\<close>

record browser =
  origin :: string
  fetch :: "string \<Rightarrow> request_init \<Rightarrow> js_error + response"
  null_property_error :: "jsval \<Rightarrow> string \<Rightarrow> js_error"
  to_primitive_error :: js_error

text \<open>The \<^verbatim>\<open>change\<close> event: \<^verbatim>\<open>event.target.files\<close>.\<close>

record event =
  files :: "audio_file list"

subsection \<open>The page and what the script does to it\<close>

datatype effect =
    SetDisplay string
  | SetInnerHTML string
  | SetClassName string
  | ConsoleLog string
  | ConsoleError string js_error
  | Fetch string request_init

text \<open>
  The state the script writes: \<^verbatim>\<open>result.style.display\<close>, \<^verbatim>\<open>transcript.innerHTML\<close>
  (the string assigned to it), \<^verbatim>\<open>transcript.className\<close>, and the trace of every effect
  in the order it happened.
\<close>

record world =
  result_display :: string
  transcript_innerHTML :: string
  transcript_className :: string
  trace :: "effect list"

definition set_result_display :: "string \<Rightarrow> world \<Rightarrow> world" where
  "set_result_display v w = w\<lparr>result_display := v, trace := trace w @ [SetDisplay v]\<rparr>"

definition set_transcript_innerHTML :: "string \<Rightarrow> world \<Rightarrow> world" where
  "set_transcript_innerHTML v w =
     w\<lparr>transcript_innerHTML := v, trace := trace w @ [SetInnerHTML v]\<rparr>"

definition set_transcript_className :: "string \<Rightarrow> world \<Rightarrow> world" where
  "set_transcript_className v w =
     w\<lparr>transcript_className := v, trace := trace w @ [SetClassName v]\<rparr>"

definition emit :: "effect \<Rightarrow> world \<Rightarrow> world" where
  "emit e w = w\<lparr>trace := trace w @ [e]\<rparr>"

subsection \<open>The operations of the language the script uses\<close>

text \<open>Truthiness, for \<^verbatim>\<open>||\<close>.\<close>

fun truthy :: "jsval \<Rightarrow> bool" where
  "truthy Undefined = False"
| "truthy Null = False"
| "truthy (JBool b) = b"
| "truthy (JNum n) = (\<not> is_zero n)"
| "truthy (JStr s) = (s \<noteq> [])"
| "truthy (JArr xs) = True"
| "truthy (JObj ps) = True"

definition js_or :: "jsval \<Rightarrow> jsval \<Rightarrow> jsval" where
  "js_or a b = (if truthy a then a else b)"

text \<open>
  Reading the property \<open>p\<close> of a value, for the two names the script reads,
  \<^verbatim>\<open>transcription\<close> and \<^verbatim>\<open>detail\<close>, which no built-in prototype has: \<^verbatim>\<open>null\<close> and
  \<^verbatim>\<open>undefined\<close> throw, an object gives its own property, everything else gives
  \<^verbatim>\<open>undefined\<close>.
\<close>

fun get_property :: "browser \<Rightarrow> jsval \<Rightarrow> string \<Rightarrow> js_error + jsval" where
  "get_property b Undefined p = Inl (null_property_error b Undefined p)"
| "get_property b Null p = Inl (null_property_error b Null p)"
| "get_property b (JObj ps) p =
     Inr (case map_of ps p of None \<Rightarrow> Undefined | Some v \<Rightarrow> v)"
| "get_property b v p = Inr Undefined"

text \<open>The decimal text of a natural number: \<^verbatim>\<open>ToString\<close> of \<^verbatim>\<open>response.status\<close>.\<close>

definition digit_char :: "nat \<Rightarrow> char" where
  "digit_char d = ''0123456789'' ! d"

fun string_of_nat :: "nat \<Rightarrow> string" where
  "string_of_nat n =
     (if n < 10 then [digit_char n]
      else string_of_nat (n div 10) @ [digit_char (n mod 10)])"

declare string_of_nat.simps [simp del]

text \<open>
  \<^verbatim>\<open>ToString\<close> of a value. An object parsed from JSON prints as \<^verbatim>\<open>[object Object]\<close>,
  unless it has an own property \<^verbatim>\<open>toString\<close>: that property is not callable, the
  inherited \<^verbatim>\<open>valueOf\<close> returns the object, and the conversion throws. An array joins
  its elements with commas, \<^verbatim>\<open>null\<close> and \<^verbatim>\<open>undefined\<close> elements printing as nothing.
\<close>

fun ToString :: "browser \<Rightarrow> jsval \<Rightarrow> js_error + string"
  and join :: "browser \<Rightarrow> jsval list \<Rightarrow> js_error + string"
  and element_text :: "browser \<Rightarrow> jsval \<Rightarrow> js_error + string" where
  "ToString b Undefined = Inr ''undefined''"
| "ToString b Null = Inr ''null''"
| "ToString b (JBool v) = Inr (if v then ''true'' else ''false'')"
| "ToString b (JNum n) = Inr (decimal n)"
| "ToString b (JStr s) = Inr s"
| "ToString b (JArr xs) = join b xs"
| "ToString b (JObj ps) =
     (if ''toString'' \<in> set (map fst ps) then Inl (to_primitive_error b)
      else Inr ''[object Object]'')"
| "join b [] = Inr []"
| "join b [x] = element_text b x"
| "join b (x # y # ys) =
     (case element_text b x of
        Inl e \<Rightarrow> Inl e
      | Inr s \<Rightarrow>
          (case join b (y # ys) of
             Inl e \<Rightarrow> Inl e
           | Inr r \<Rightarrow> Inr (s @ '','' @ r)))"
| "element_text b Undefined = Inr []"
| "element_text b Null = Inr []"
| "element_text b (JBool v) = ToString b (JBool v)"
| "element_text b (JNum n) = ToString b (JNum n)"
| "element_text b (JStr s) = ToString b (JStr s)"
| "element_text b (JArr xs) = ToString b (JArr xs)"
| "element_text b (JObj ps) = ToString b (JObj ps)"

subsection \<open>script.js\<close>

definition API_BASE_URL :: "browser \<Rightarrow> string" where
  "API_BASE_URL b = origin b"

definition TRANSCRIBE_URL :: "browser \<Rightarrow> string" where
  "TRANSCRIBE_URL b = API_BASE_URL b @ ''/api/transcribe''"

text \<open>
  \<^verbatim>\<open>transcribeWithServerless(file)\<close>: one \<^verbatim>\<open>fetch\<close>; on a response that is not ok the
  body is read with a rejection replaced by the empty object, and an \<^verbatim>\<open>Error\<close> is
  thrown; otherwise the result is what \<^verbatim>\<open>response.json()\<close> settles to.
\<close>

definition transcribeWithServerless ::
  "browser \<Rightarrow> audio_file \<Rightarrow> world \<Rightarrow> (js_error + jsval) \<times> world" where
  "transcribeWithServerless b f w =
     (let formData = [(''file'', f)];
          init = \<lparr>req_method = ''POST'', req_body = formData\<rparr>;
          w1 = emit (Fetch (TRANSCRIBE_URL b) init) w
      in case fetch b (TRANSCRIBE_URL b) init of
           Inl e \<Rightarrow> (Inl e, w1)
         | Inr response \<Rightarrow>
             if \<not> ok response then
               (let errorData = (case json response of Inl e \<Rightarrow> JObj [] | Inr v \<Rightarrow> v)
                in case get_property b errorData ''detail'' of
                     Inl e \<Rightarrow> (Inl e, w1)
                   | Inr detail \<Rightarrow>
                       (case ToString b (js_or detail (JStr ''Unknown error'')) of
                          Inl e \<Rightarrow> (Inl e, w1)
                        | Inr d \<Rightarrow>
                            (Inl (Thrown ''Error''
                               (''Transcription failed: '' @ string_of_nat (status response)
                                @ '' '' @ statusText response @ '' - '' @ d)), w1)))
             else (json response, w1))"

definition showLoading :: "world \<Rightarrow> world" where
  "showLoading w =
     set_transcript_className ''loading''
       (set_transcript_innerHTML ''Processing audio with AI...''
          (set_result_display ''block'' w))"

text \<open>
  \<^verbatim>\<open>showResult(text)\<close>: the assignment to \<^verbatim>\<open>innerHTML\<close> converts the value to a
  string first, and a conversion that throws leaves the page as it was.
\<close>

definition showResult :: "browser \<Rightarrow> jsval \<Rightarrow> world \<Rightarrow> (js_error + unit) \<times> world" where
  "showResult b text w =
     (case ToString b (js_or text (JStr ''No transcript generated.'')) of
        Inl e \<Rightarrow> (Inl e, w)
      | Inr s \<Rightarrow> (Inr (), set_transcript_className [] (set_transcript_innerHTML s w)))"

definition troubleshooting :: string where
  "troubleshooting =
     ''\<newline>\<newline>Make sure to:\<newline>1. Use a supported audio format (MP3, WAV, M4A, FLAC, etc.)\<newline>2. Check your internet connection\<newline>3. File is not empty or corrupted\<newline>4. File is under 25MB''"

definition showError :: "string \<Rightarrow> world \<Rightarrow> world" where
  "showError msg w =
     set_transcript_className ''error''
       (set_transcript_innerHTML (''Error: '' @ msg @ troubleshooting) w)"

text \<open>The body of the \<^verbatim>\<open>try\<close> block of \<^verbatim>\<open>handleFileUpload\<close>, after the first log line.\<close>

definition try_block :: "browser \<Rightarrow> audio_file \<Rightarrow> world \<Rightarrow> (js_error + unit) \<times> world" where
  "try_block b f w =
     (case transcribeWithServerless b f w of
        (Inl e, w1) \<Rightarrow> (Inl e, w1)
      | (Inr transcriptionResult, w1) \<Rightarrow>
          (let w2 = emit (ConsoleLog ''Transcription completed'') w1
           in case get_property b transcriptionResult ''transcription'' of
                Inl e \<Rightarrow> (Inl e, w2)
              | Inr text \<Rightarrow> showResult b text w2))"

text \<open>
  \<^verbatim>\<open>handleFileUpload(event)\<close>. The result is how the handler's promise settles
  (\<open>Inl\<close> a rejection) and the page after it.
\<close>

definition handleFileUpload :: "browser \<Rightarrow> event \<Rightarrow> world \<Rightarrow> (js_error + unit) \<times> world" where
  "handleFileUpload b ev w =
     (case files ev of
        [] \<Rightarrow> (Inr (), w)
      | f # rest \<Rightarrow>
          (let w1 = showLoading w;
               w2 = emit (ConsoleLog ''Starting serverless transcription...'') w1
           in case try_block b f w2 of
                (Inr u, w3) \<Rightarrow> (Inr (), w3)
              | (Inl error, w3) \<Rightarrow>
                  (Inr (), showError (message error)
                             (emit (ConsoleError ''Transcription failed:'' error) w3))))"

subsection \<open>Observations of a run\<close>

text \<open>The \<^verbatim>\<open>fetch\<close> calls of a trace, in order: URL and init of each.\<close>

fun fetches :: "effect list \<Rightarrow> (string \<times> request_init) list" where
  "fetches [] = []"
| "fetches (Fetch u i # es) = (u, i) # fetches es"
| "fetches (e # es) = fetches es"

text \<open>
  What one trace entry does to the world when the script performs it, and a list of
  entries performed in order. The page writes go through the three setters.
\<close>

fun apply_effect :: "effect \<Rightarrow> world \<Rightarrow> world" where
  "apply_effect (SetDisplay v) w = set_result_display v w"
| "apply_effect (SetInnerHTML v) w = set_transcript_innerHTML v w"
| "apply_effect (SetClassName v) w = set_transcript_className v w"
| "apply_effect e w = emit e w"

fun replay :: "effect list \<Rightarrow> world \<Rightarrow> world" where
  "replay [] w = w"
| "replay (e # es) w = replay es (apply_effect e w)"

text \<open>
  Everything that writes to the page, as one step each: the three render methods and a
  whole upload. The render methods run without suspending, so the page writes of any
  interleaving of pending uploads are a sequence of such steps.
\<close>

datatype operation =
    ShowLoading
  | ShowResult browser jsval
  | ShowError string
  | Upload browser event

fun perform :: "operation \<Rightarrow> world \<Rightarrow> world" where
  "perform ShowLoading w = showLoading w"
| "perform (ShowResult b text) w = snd (showResult b text w)"
| "perform (ShowError msg) w = showError msg w"
| "perform (Upload b ev) w = snd (handleFileUpload b ev w)"

fun run :: "operation list \<Rightarrow> world \<Rightarrow> world" where
  "run [] w = w"
| "run (x # xs) w = run xs (perform x w)"

subsection \<open>Concrete runs\<close>

definition clip :: audio_file where
  "clip = \<lparr>file_name = ''bit.mp3'', file_type = ''audio/mpeg'', file_bytes = [73, 68, 51]\<rparr>"

definition selected :: event where
  "selected = \<lparr>files = [clip]\<rparr>"

definition cancelled :: event where
  "cancelled = \<lparr>files = []\<rparr>"

definition idle :: world where
  "idle = \<lparr>result_display = ''none'', transcript_innerHTML = [],
            transcript_className = [], trace = []\<rparr>"

text \<open>
  A browser whose \<^verbatim>\<open>fetch\<close> settles the same way whatever it is asked, with the
  messages V8 gives its \<^verbatim>\<open>TypeError\<close>s.
\<close>

definition answering :: "js_error + response \<Rightarrow> browser" where
  "answering r =
     \<lparr>origin = ''https://example.test'',
      fetch = (\<lambda>url init. r),
      null_property_error = (\<lambda>v p. Thrown ''TypeError''
         (''Cannot read properties of ''
          @ (case v of Null \<Rightarrow> ''null'' | _ \<Rightarrow> ''undefined'')
          @ '' (reading '' @ [CHR 0x27] @ p @ [CHR 0x27] @ '')'')),
      to_primitive_error = Thrown ''TypeError'' ''Cannot convert object to primitive value''\<rparr>"

definition replying :: "nat \<Rightarrow> string \<Rightarrow> js_error + jsval \<Rightarrow> browser" where
  "replying code text body =
     answering (Inr \<lparr>status = code, statusText = text, json = body\<rparr>)"

section \<open>Properties\<close>

subsection \<open>What each method does to the page and the trace\<close>

lemmas page_writes =
  set_result_display_def set_transcript_innerHTML_def set_transcript_className_def emit_def

lemma fetches_append: "fetches (xs @ ys) = fetches xs @ fetches ys"
  by (induction xs rule: fetches.induct) simp_all

lemma snd_transcribe:
  "snd (transcribeWithServerless b f w) =
     emit (Fetch (TRANSCRIBE_URL b) \<lparr>req_method = ''POST'', req_body = [(''file'', f)]\<rparr>) w"
  by (simp add: transcribeWithServerless_def Let_def split: sum.splits)

lemma trace_showLoading:
  "trace (showLoading w) = trace w @ [SetDisplay ''block'',
     SetInnerHTML ''Processing audio with AI...'', SetClassName ''loading'']"
  by (simp add: showLoading_def page_writes)

lemma trace_showError:
  "trace (showError m w) = trace w @ [SetInnerHTML (''Error: '' @ m @ troubleshooting),
     SetClassName ''error'']"
  by (simp add: showError_def page_writes)

lemma trace_showResult:
  "\<exists>post. trace (snd (showResult b t w)) = trace w @ post \<and> fetches post = []"
  by (simp add: showResult_def page_writes split: sum.splits)

lemma trace_try_block:
  "\<exists>post. trace (snd (try_block b f w)) =
      trace w @ Fetch (TRANSCRIBE_URL b) \<lparr>req_method = ''POST'', req_body = [(''file'', f)]\<rparr> # post
    \<and> fetches post = []"
proof (cases "transcribeWithServerless b f w")
  case (Pair r w1)
  then have w1: "w1 = emit (Fetch (TRANSCRIBE_URL b)
                         \<lparr>req_method = ''POST'', req_body = [(''file'', f)]\<rparr>) w"
    using snd_transcribe [of b f w] by simp
  show ?thesis
  proof (cases r)
    case (Inl e)
    with Pair w1 show ?thesis by (simp add: try_block_def emit_def)
  next
    case (Inr v)
    show ?thesis
    proof (cases "get_property b v ''transcription''")
      case (Inl e)
      with Pair Inr w1 show ?thesis by (simp add: try_block_def emit_def Let_def)
    next
      case (Inr t)
      obtain post where
        "trace (snd (showResult b t (emit (ConsoleLog ''Transcription completed'') w1)))
          = trace (emit (ConsoleLog ''Transcription completed'') w1) @ post"
        "fetches post = []"
        using trace_showResult by blast
      with Pair \<open>r = Inr v\<close> Inr w1 show ?thesis
        by (simp add: try_block_def emit_def Let_def)
    qed
  qed
qed

text \<open>
  The trace of an upload with a file: the three writes of the loading state, the first
  log line, the one \<^verbatim>\<open>fetch\<close>, and a rest without any \<^verbatim>\<open>fetch\<close>.
\<close>

lemma upload_trace:
  assumes "files ev = f # rest"
  shows "\<exists>post. trace (snd (handleFileUpload b ev w)) =
           trace w @ [SetDisplay ''block'', SetInnerHTML ''Processing audio with AI...'',
                      SetClassName ''loading'',
                      ConsoleLog ''Starting serverless transcription...'',
                      Fetch (TRANSCRIBE_URL b)
                        \<lparr>req_method = ''POST'', req_body = [(''file'', f)]\<rparr>] @ post
         \<and> fetches post = []"
proof -
  let ?w2 = "emit (ConsoleLog ''Starting serverless transcription...'') (showLoading w)"
  let ?call = "Fetch (TRANSCRIBE_URL b) \<lparr>req_method = ''POST'', req_body = [(''file'', f)]\<rparr>"
  obtain post where p: "trace (snd (try_block b f ?w2)) = trace ?w2 @ ?call # post"
      "fetches post = []"
    using trace_try_block by blast
  show ?thesis
  proof (cases "try_block b f ?w2")
    case (Pair r w3)
    with p have t: "trace w3 = trace ?w2 @ ?call # post"
      by simp
    show ?thesis
    proof (cases r)
      case (Inl e)
      with Pair t p(2) assms show ?thesis
        by (simp add: handleFileUpload_def Let_def trace_showError trace_showLoading
            emit_def fetches_append)
    next
      case (Inr u)
      with Pair t p(2) assms show ?thesis
        by (simp add: handleFileUpload_def Let_def trace_showLoading emit_def)
    qed
  qed
qed

subsection \<open>The request\<close>

text \<open>
  C1. A file-selection event that carries a file adds exactly one \<^verbatim>\<open>fetch\<close> call to
  the trace. Its URL is the page's origin followed by \<^verbatim>\<open>/api/transcribe\<close>, its method
  is POST, and its body is a form with the single entry \<^verbatim>\<open>file\<close> holding the first
  selected file.
\<close>

theorem one_post_request:
  assumes "files ev = f # rest"
  shows "fetches (trace (snd (handleFileUpload b ev w))) =
           fetches (trace w) @
           [(origin b @ ''/api/transcribe'',
             \<lparr>req_method = ''POST'', req_body = [(''file'', f)]\<rparr>)]"
proof -
  obtain post where "trace (snd (handleFileUpload b ev w)) =
           trace w @ [SetDisplay ''block'', SetInnerHTML ''Processing audio with AI...'',
                      SetClassName ''loading'',
                      ConsoleLog ''Starting serverless transcription...'',
                      Fetch (TRANSCRIBE_URL b)
                        \<lparr>req_method = ''POST'', req_body = [(''file'', f)]\<rparr>] @ post"
      and "fetches post = []"
    using upload_trace [OF assms] by blast
  then show ?thesis
    by (simp add: fetches_append TRANSCRIBE_URL_def API_BASE_URL_def)
qed

theorem one_post_request_witness:
  "files selected = clip # [] \<and>
   fetches (trace (snd (handleFileUpload (answering (Inl (Thrown ''TypeError'' ''Failed to fetch'')))
                          selected idle))) =
     [(''https://example.test/api/transcribe'',
       \<lparr>req_method = ''POST'', req_body = [(''file'', clip)]\<rparr>)]"
proof -
  have h: "files selected = clip # []" by (simp add: selected_def)
  show ?thesis
    using h one_post_request [OF h, of "answering (Inl (Thrown ''TypeError'' ''Failed to fetch''))" idle]
    by (simp add: idle_def answering_def)
qed

subsection \<open>No file\<close>

text \<open>
  C6. A file-selection event without a file (the dialog was cancelled) makes no
  \<^verbatim>\<open>fetch\<close> call and leaves the page as it was: the handler returns the world it was
  given, trace included.
\<close>

theorem no_file_no_effect:
  "files ev = [] \<Longrightarrow> handleFileUpload b ev w = (Inr (), w)"
  by (simp add: handleFileUpload_def)

theorem no_file_no_effect_witness:
  "files cancelled = [] \<and>
   handleFileUpload (replying 200 ''OK'' (Inr (JObj []))) cancelled idle = (Inr (), idle)"
proof -
  have h: "files cancelled = []" by (simp add: cancelled_def)
  show ?thesis
    using h no_file_no_effect [OF h, of "replying 200 ''OK'' (Inr (JObj []))" idle] by simp
qed

subsection \<open>Loading comes first\<close>

lemma replay_append: "replay (xs @ ys) w = replay ys (replay xs w)"
  by (induction xs arbitrary: w) simp_all

lemma replay_showResult:
  "\<exists>post. snd (showResult b t w) = replay post w \<and> fetches post = []"
proof (cases "ToString b (js_or t (JStr ''No transcript generated.''))")
  case (Inl e)
  then have "snd (showResult b t w) = replay [] w \<and> fetches [] = []"
    by (simp add: showResult_def)
  then show ?thesis by blast
next
  case (Inr s)
  then have "snd (showResult b t w) = replay [SetInnerHTML s, SetClassName []] w
      \<and> fetches [SetInnerHTML s, SetClassName []] = []"
    by (simp add: showResult_def)
  then show ?thesis by blast
qed

lemma replay_try_block:
  "\<exists>post. snd (try_block b f w) = replay post (snd (transcribeWithServerless b f w))
     \<and> fetches post = []"
proof (cases "transcribeWithServerless b f w")
  case (Pair r w1)
  show ?thesis
  proof (cases r)
    case (Inl e)
    with Pair have "snd (try_block b f w) = replay [] (snd (transcribeWithServerless b f w))
        \<and> fetches [] = []"
      by (simp add: try_block_def)
    then show ?thesis by blast
  next
    case (Inr v)
    let ?w2 = "emit (ConsoleLog ''Transcription completed'') w1"
    show ?thesis
    proof (cases "get_property b v ''transcription''")
      case (Inl e)
      with Pair \<open>r = Inr v\<close>
      have "snd (try_block b f w) =
              replay [ConsoleLog ''Transcription completed''] (snd (transcribeWithServerless b f w))
          \<and> fetches [ConsoleLog ''Transcription completed''] = []"
        by (simp add: try_block_def Let_def)
      then show ?thesis by blast
    next
      case (Inr t)
      obtain post where p: "snd (showResult b t ?w2) = replay post ?w2" "fetches post = []"
        using replay_showResult by blast
      with Pair \<open>r = Inr v\<close> Inr
      have "snd (try_block b f w) =
              replay (ConsoleLog ''Transcription completed'' # post)
                (snd (transcribeWithServerless b f w))
          \<and> fetches (ConsoleLog ''Transcription completed'' # post) = []"
        by (simp add: try_block_def Let_def)
      then show ?thesis by blast
    qed
  qed
qed

lemma trace_replay: "trace (replay es w) = trace w @ es"
proof (induction es arbitrary: w)
  case Nil
  then show ?case by simp
next
  case (Cons e es)
  have "trace (apply_effect e w) = trace w @ [e]"
    by (cases e) (simp_all add: page_writes)
  with Cons show ?case by simp
qed

lemma world_at_fetch:
  "snd (transcribeWithServerless b f
          (emit (ConsoleLog ''Starting serverless transcription...'') (showLoading w))) =
     \<lparr>result_display = ''block'',
      transcript_innerHTML = ''Processing audio with AI...'',
      transcript_className = ''loading'',
      trace = trace w @ [SetDisplay ''block'', SetInnerHTML ''Processing audio with AI...'',
                         SetClassName ''loading'',
                         ConsoleLog ''Starting serverless transcription...'',
                         Fetch (origin b @ ''/api/transcribe'')
                           \<lparr>req_method = ''POST'', req_body = [(''file'', f)]\<rparr>]\<rparr>"
  by (simp add: snd_transcribe showLoading_def page_writes TRANSCRIBE_URL_def API_BASE_URL_def)

text \<open>
  C7. With a file present, the page is in the loading state when the POST goes out.
  The world in which \<^verbatim>\<open>transcribeWithServerless\<close> has just issued its \<^verbatim>\<open>fetch\<close>,
  called as the handler calls it, has the result area's display \<^verbatim>\<open>block\<close>, the
  transcript text \<^verbatim>\<open>Processing audio with AI...\<close> and the class \<^verbatim>\<open>loading\<close>, and
  its trace is the trace before the upload, the three loading writes, the first log line
  and the \<^verbatim>\<open>fetch\<close>. The world the handler ends in is that world with the rest of the
  trace performed on it, and the rest holds no further \<^verbatim>\<open>fetch\<close>.
\<close>

theorem loading_before_post:
  assumes "files ev = f # rest"
  shows "\<exists>post.
      snd (transcribeWithServerless b f
             (emit (ConsoleLog ''Starting serverless transcription...'') (showLoading w))) =
        \<lparr>result_display = ''block'',
         transcript_innerHTML = ''Processing audio with AI...'',
         transcript_className = ''loading'',
         trace = trace w @ [SetDisplay ''block'', SetInnerHTML ''Processing audio with AI...'',
                            SetClassName ''loading'',
                            ConsoleLog ''Starting serverless transcription...'',
                            Fetch (origin b @ ''/api/transcribe'')
                              \<lparr>req_method = ''POST'', req_body = [(''file'', f)]\<rparr>]\<rparr>
    \<and> snd (handleFileUpload b ev w) =
        replay post (snd (transcribeWithServerless b f
             (emit (ConsoleLog ''Starting serverless transcription...'') (showLoading w))))
    \<and> trace (snd (handleFileUpload b ev w)) =
        trace w @ [SetDisplay ''block'', SetInnerHTML ''Processing audio with AI...'',
                   SetClassName ''loading'',
                   ConsoleLog ''Starting serverless transcription...'',
                   Fetch (origin b @ ''/api/transcribe'')
                     \<lparr>req_method = ''POST'', req_body = [(''file'', f)]\<rparr>] @ post
    \<and> fetches post = []"
proof -
  let ?w2 = "emit (ConsoleLog ''Starting serverless transcription...'') (showLoading w)"
  let ?wf = "snd (transcribeWithServerless b f ?w2)"
  obtain p where p: "snd (try_block b f ?w2) = replay p ?wf" "fetches p = []"
    using replay_try_block by blast
  have "\<exists>post. snd (handleFileUpload b ev w) = replay post ?wf \<and> fetches post = []"
  proof (cases "try_block b f ?w2")
    case (Pair r w3)
    with p have w3: "w3 = replay p ?wf" by simp
    show ?thesis
    proof (cases r)
      case (Inl e)
      let ?q = "p @ [ConsoleError ''Transcription failed:'' e,
                     SetInnerHTML (''Error: '' @ message e @ troubleshooting),
                     SetClassName ''error'']"
      from Pair Inl w3 assms
      have "snd (handleFileUpload b ev w) = replay ?q ?wf"
        by (simp add: handleFileUpload_def Let_def showError_def replay_append)
      moreover have "fetches ?q = []" using p(2) by (simp add: fetches_append)
      ultimately show ?thesis by blast
    next
      case (Inr u)
      from Pair Inr w3 assms
      have "snd (handleFileUpload b ev w) = replay p ?wf"
        by (simp add: handleFileUpload_def Let_def)
      with p(2) show ?thesis by blast
    qed
  qed
  then obtain post where post: "snd (handleFileUpload b ev w) = replay post ?wf"
      "fetches post = []"
    by blast
  have "trace (snd (handleFileUpload b ev w)) = trace ?wf @ post"
    using post(1) by (simp add: trace_replay)
  then have "trace (snd (handleFileUpload b ev w)) =
        trace w @ [SetDisplay ''block'', SetInnerHTML ''Processing audio with AI...'',
                   SetClassName ''loading'',
                   ConsoleLog ''Starting serverless transcription...'',
                   Fetch (origin b @ ''/api/transcribe'')
                     \<lparr>req_method = ''POST'', req_body = [(''file'', f)]\<rparr>] @ post"
    by (simp add: world_at_fetch)
  with post world_at_fetch [of b f w] show ?thesis by blast
qed

theorem loading_before_post_witness:
  "files selected = clip # [] \<and>
   (\<exists>post.
      snd (transcribeWithServerless (replying 200 ''OK'' (Inr (JObj []))) clip
             (emit (ConsoleLog ''Starting serverless transcription...'') (showLoading idle))) =
        \<lparr>result_display = ''block'',
         transcript_innerHTML = ''Processing audio with AI...'',
         transcript_className = ''loading'',
         trace = [SetDisplay ''block'', SetInnerHTML ''Processing audio with AI...'',
                  SetClassName ''loading'',
                  ConsoleLog ''Starting serverless transcription...'',
                  Fetch ''https://example.test/api/transcribe''
                    \<lparr>req_method = ''POST'', req_body = [(''file'', clip)]\<rparr>]\<rparr>
    \<and> snd (handleFileUpload (replying 200 ''OK'' (Inr (JObj []))) selected idle) =
        replay post (snd (transcribeWithServerless (replying 200 ''OK'' (Inr (JObj []))) clip
             (emit (ConsoleLog ''Starting serverless transcription...'') (showLoading idle))))
    \<and> fetches post = [])"
proof -
  have h: "files selected = clip # []" by (simp add: selected_def)
  have o: "origin (replying 200 ''OK'' (Inr (JObj []))) = ''https://example.test''"
    and t: "trace idle = []"
    by (simp_all add: replying_def answering_def idle_def)
  from loading_before_post [OF h, of "replying 200 ''OK'' (Inr (JObj []))" idle]
  show ?thesis
    unfolding o t using h by auto
qed

subsection \<open>The error text\<close>

text \<open>
  C8. The text \<^verbatim>\<open>showError\<close> puts into the transcript element starts with
  \<^verbatim>\<open>Error: \<close> followed by the message it was given; the troubleshooting list follows.
\<close>

theorem error_text_prefix:
  "prefix (''Error: '' @ msg) (transcript_innerHTML (showError msg w)) \<and>
   transcript_innerHTML (showError msg w) = ''Error: '' @ msg @ troubleshooting"
  by (simp add: showError_def page_writes)

subsection \<open>How \<^verbatim>\<open>transcribeWithServerless\<close> settles\<close>

lemma fst_transcribe_world:
  "fst (transcribeWithServerless b f w) = fst (transcribeWithServerless b f w')"
  by (simp add: transcribeWithServerless_def Let_def split: sum.splits)

lemma transcribe_rejected:
  "fetch b (TRANSCRIBE_URL b) \<lparr>req_method = ''POST'', req_body = [(''file'', f)]\<rparr> = Inl e
   \<Longrightarrow> fst (transcribeWithServerless b f w) = Inl e"
  by (simp add: transcribeWithServerless_def Let_def)

lemma transcribe_ok:
  "fetch b (TRANSCRIBE_URL b) \<lparr>req_method = ''POST'', req_body = [(''file'', f)]\<rparr> = Inr r
   \<Longrightarrow> ok r \<Longrightarrow> fst (transcribeWithServerless b f w) = json r"
  by (simp add: transcribeWithServerless_def Let_def)

lemma transcribe_not_ok:
  "fetch b (TRANSCRIBE_URL b) \<lparr>req_method = ''POST'', req_body = [(''file'', f)]\<rparr> = Inr r
   \<Longrightarrow> \<not> ok r \<Longrightarrow> \<exists>e. fst (transcribeWithServerless b f w) = Inl e"
  by (simp add: transcribeWithServerless_def Let_def split: sum.splits)

text \<open>The two ways the handler ends when \<^verbatim>\<open>transcribeWithServerless\<close> has settled.\<close>

lemma upload_failed:
  assumes "files ev = f # rest"
    and "fst (transcribeWithServerless b f w0) = Inl err"
  shows "handleFileUpload b ev w =
     (Inr (), showError (message err)
        (emit (ConsoleError ''Transcription failed:'' err)
           (emit (Fetch (TRANSCRIBE_URL b)
                    \<lparr>req_method = ''POST'', req_body = [(''file'', f)]\<rparr>)
              (emit (ConsoleLog ''Starting serverless transcription...'') (showLoading w)))))"
proof -
  let ?w2 = "emit (ConsoleLog ''Starting serverless transcription...'') (showLoading w)"
  have "fst (transcribeWithServerless b f ?w2) = Inl err"
    using assms(2) fst_transcribe_world [of b f ?w2 w0] by simp
  then have "transcribeWithServerless b f ?w2 =
      (Inl err, emit (Fetch (TRANSCRIBE_URL b)
                        \<lparr>req_method = ''POST'', req_body = [(''file'', f)]\<rparr>) ?w2)"
    using snd_transcribe [of b f ?w2] by (simp add: prod_eq_iff)
  then show ?thesis
    using assms(1) by (simp add: handleFileUpload_def try_block_def Let_def)
qed

lemma upload_rendered:
  assumes "files ev = f # rest"
    and "fst (transcribeWithServerless b f w0) = Inr v"
    and "get_property b v ''transcription'' = Inr t"
    and "ToString b (js_or t (JStr ''No transcript generated.'')) = Inr s"
  shows "handleFileUpload b ev w =
     (Inr (), set_transcript_className [] (set_transcript_innerHTML s
        (emit (ConsoleLog ''Transcription completed'')
           (emit (Fetch (TRANSCRIBE_URL b)
                    \<lparr>req_method = ''POST'', req_body = [(''file'', f)]\<rparr>)
              (emit (ConsoleLog ''Starting serverless transcription...'') (showLoading w))))))"
proof -
  let ?w2 = "emit (ConsoleLog ''Starting serverless transcription...'') (showLoading w)"
  have "fst (transcribeWithServerless b f ?w2) = Inr v"
    using assms(2) fst_transcribe_world [of b f ?w2 w0] by simp
  then have "transcribeWithServerless b f ?w2 =
      (Inr v, emit (Fetch (TRANSCRIBE_URL b)
                      \<lparr>req_method = ''POST'', req_body = [(''file'', f)]\<rparr>) ?w2)"
    using snd_transcribe [of b f ?w2] by (simp add: prod_eq_iff)
  then show ?thesis
    using assms(1,3,4) by (simp add: handleFileUpload_def try_block_def showResult_def Let_def)
qed

subsection \<open>The success render\<close>

text \<open>
  When the response has a status from 200 to 299 and its body parses to a JSON object,
  the string assigned to the transcript element is the \<^verbatim>\<open>transcription\<close> field itself
  when that field is a non-empty string, and the literal \<^verbatim>\<open>No transcript generated.\<close>
  when the field is the empty string or the object has no such field.
\<close>

lemma object_body_rendered:
  assumes "files ev = f # rest"
    and "fetch b (origin b @ ''/api/transcribe'')
           \<lparr>req_method = ''POST'', req_body = [(''file'', f)]\<rparr> = Inr r"
    and "200 \<le> status r" and "status r \<le> 299"
    and "json r = Inr (JObj ps)"
  shows "(\<forall>t. map_of ps ''transcription'' = Some (JStr t) \<and> t \<noteq> [] \<longrightarrow>
            transcript_innerHTML (snd (handleFileUpload b ev w)) = t)
       \<and> (map_of ps ''transcription'' = Some (JStr []) \<or> map_of ps ''transcription'' = None \<longrightarrow>
            transcript_innerHTML (snd (handleFileUpload b ev w)) = ''No transcript generated.'')"
proof -
  have res: "fst (transcribeWithServerless b f w) = Inr (JObj ps)"
    using assms(2-5) transcribe_ok [of b f r w]
    by (simp add: ok_def TRANSCRIBE_URL_def API_BASE_URL_def)
  have shown: "transcript_innerHTML (snd (handleFileUpload b ev w)) = s"
    if "ToString b (js_or (case map_of ps ''transcription'' of None \<Rightarrow> Undefined | Some v \<Rightarrow> v)
          (JStr ''No transcript generated.'')) = Inr s" for s
    using upload_rendered [OF assms(1) res _ that, of w] by (simp add: page_writes)
  show ?thesis
  proof (intro conjI allI impI)
    fix t assume "map_of ps ''transcription'' = Some (JStr t) \<and> t \<noteq> []"
    then show "transcript_innerHTML (snd (handleFileUpload b ev w)) = t"
      using shown [of t] by (simp add: js_or_def)
  next
    assume "map_of ps ''transcription'' = Some (JStr []) \<or> map_of ps ''transcription'' = None"
    then show "transcript_innerHTML (snd (handleFileUpload b ev w)) = ''No transcript generated.''"
      using shown [of "''No transcript generated.''"] by (auto simp: js_or_def)
  qed
qed

text \<open>A body that is a boolean, a number, a string or an array has no such field either.\<close>

lemma other_body_rendered:
  assumes "files ev = f # rest"
    and "fetch b (origin b @ ''/api/transcribe'')
           \<lparr>req_method = ''POST'', req_body = [(''file'', f)]\<rparr> = Inr r"
    and "200 \<le> status r" and "status r \<le> 299"
    and "json r = Inr v"
    and "get_property b v ''transcription'' = Inr Undefined"
  shows "transcript_innerHTML (snd (handleFileUpload b ev w)) = ''No transcript generated.''"
proof -
  have res: "fst (transcribeWithServerless b f w) = Inr v"
    using assms(2-5) transcribe_ok [of b f r w]
    by (simp add: ok_def TRANSCRIBE_URL_def API_BASE_URL_def)
  have "ToString b (js_or Undefined (JStr ''No transcript generated.''))
          = Inr ''No transcript generated.''"
    by (simp add: js_or_def)
  from upload_rendered [OF assms(1) res assms(6) this, of w]
  show ?thesis by (simp add: page_writes)
qed

lemma hello_world_example:
  "transcript_innerHTML (snd (handleFileUpload
      (replying 200 ''OK'' (Inr (JObj [(''transcription'', JStr ''hello world'')])))
      selected idle)) = ''hello world''"
  by code_simp

lemma empty_transcription_example:
  "transcript_innerHTML (snd (handleFileUpload
      (replying 200 ''OK'' (Inr (JObj [(''transcription'', JStr [])])))
      selected idle)) = ''No transcript generated.''"
  by code_simp

text \<open>
  C2. A response with status 200 whose body is the JSON value \<^verbatim>\<open>null\<close>: the body
  parses and has no \<^verbatim>\<open>transcription\<close> field, but reading the field of \<^verbatim>\<open>null\<close>
  throws inside the \<^verbatim>\<open>try\<close> block before \<^verbatim>\<open>showResult\<close> is called. The text placed
  in the transcript element is the engine's \<^verbatim>\<open>TypeError\<close> message in the troubleshooting
  template, not the literal \<^verbatim>\<open>No transcript generated.\<close>
\<close>

theorem fallback_lost_on_null_body:
  "ok \<lparr>status = 200, statusText = ''OK'', json = Inr Null\<rparr>
   \<and> fst (transcribeWithServerless (replying 200 ''OK'' (Inr Null)) clip idle) = Inr Null
   \<and> transcript_innerHTML (snd (handleFileUpload
        (replying 200 ''OK'' (Inr Null)) selected idle)) =
       ''Error: Cannot read properties of null (reading '' @ [CHR 0x27] @ ''transcription''
         @ [CHR 0x27] @ '')'' @ troubleshooting
   \<and> transcript_innerHTML (snd (handleFileUpload
        (replying 200 ''OK'' (Inr Null)) selected idle)) \<noteq> ''No transcript generated.''"
  by code_simp

subsection \<open>Failures end in one error render\<close>

text \<open>
  C5. With a file present, when \<^verbatim>\<open>fetch\<close> rejects before any response, or the response
  has a status outside 200 to 299, or a response with such a status has a body that
  does not parse, then \<^verbatim>\<open>transcribeWithServerless\<close> throws some error; the handler's
  promise is fulfilled all the same; after the loading writes and the single
  \<^verbatim>\<open>fetch\<close> the trace holds one \<^verbatim>\<open>console.error\<close> and one error render, whose text is
  the troubleshooting template around that error's message; and for a rejection of
  \<^verbatim>\<open>fetch\<close> or of the body's parse the error is that rejection.
\<close>

theorem failures_rendered_once:
  assumes "files ev = f # rest"
    and "(\<exists>e. fetch b (origin b @ ''/api/transcribe'')
                \<lparr>req_method = ''POST'', req_body = [(''file'', f)]\<rparr> = Inl e)
       \<or> (\<exists>r. fetch b (origin b @ ''/api/transcribe'')
                \<lparr>req_method = ''POST'', req_body = [(''file'', f)]\<rparr> = Inr r
              \<and> (status r < 200 \<or> 299 < status r))
       \<or> (\<exists>r e. fetch b (origin b @ ''/api/transcribe'')
                \<lparr>req_method = ''POST'', req_body = [(''file'', f)]\<rparr> = Inr r
              \<and> 200 \<le> status r \<and> status r \<le> 299 \<and> json r = Inl e)"
  shows "\<exists>err. fst (transcribeWithServerless b f w) = Inl err
       \<and> fst (handleFileUpload b ev w) = Inr ()
       \<and> trace (snd (handleFileUpload b ev w)) =
           trace w @ [SetDisplay ''block'', SetInnerHTML ''Processing audio with AI...'',
                      SetClassName ''loading'',
                      ConsoleLog ''Starting serverless transcription...'',
                      Fetch (origin b @ ''/api/transcribe'')
                        \<lparr>req_method = ''POST'', req_body = [(''file'', f)]\<rparr>,
                      ConsoleError ''Transcription failed:'' err,
                      SetInnerHTML (''Error: '' @ message err @ troubleshooting),
                      SetClassName ''error'']
       \<and> transcript_innerHTML (snd (handleFileUpload b ev w)) =
           ''Error: '' @ message err @ troubleshooting
       \<and> transcript_className (snd (handleFileUpload b ev w)) = ''error''
       \<and> (\<forall>e. fetch b (origin b @ ''/api/transcribe'')
                \<lparr>req_method = ''POST'', req_body = [(''file'', f)]\<rparr> = Inl e \<longrightarrow> err = e)
       \<and> (\<forall>r e. fetch b (origin b @ ''/api/transcribe'')
                \<lparr>req_method = ''POST'', req_body = [(''file'', f)]\<rparr> = Inr r
              \<and> 200 \<le> status r \<and> status r \<le> 299 \<and> json r = Inl e \<longrightarrow> err = e)"
proof -
  from assms(2) obtain err where err: "fst (transcribeWithServerless b f w) = Inl err"
    using transcribe_rejected [of b f _ w] transcribe_not_ok [of b f _ w]
      transcribe_ok [of b f _ w]
    by (auto simp: TRANSCRIBE_URL_def API_BASE_URL_def ok_def)
  have same: "err = e"
    if "fetch b (origin b @ ''/api/transcribe'')
          \<lparr>req_method = ''POST'', req_body = [(''file'', f)]\<rparr> = Inl e" for e
    using err that transcribe_rejected [of b f e w]
    by (simp add: TRANSCRIBE_URL_def API_BASE_URL_def)
  have same': "err = e"
    if "fetch b (origin b @ ''/api/transcribe'')
          \<lparr>req_method = ''POST'', req_body = [(''file'', f)]\<rparr> = Inr r
        \<and> 200 \<le> status r \<and> status r \<le> 299 \<and> json r = Inl e" for r e
    using err that transcribe_ok [of b f r w]
    by (simp add: TRANSCRIBE_URL_def API_BASE_URL_def ok_def)
  have "handleFileUpload b ev w =
     (Inr (), showError (message err)
        (emit (ConsoleError ''Transcription failed:'' err)
           (emit (Fetch (TRANSCRIBE_URL b)
                    \<lparr>req_method = ''POST'', req_body = [(''file'', f)]\<rparr>)
              (emit (ConsoleLog ''Starting serverless transcription...'') (showLoading w)))))"
    by (rule upload_failed [OF assms(1) err])
  then have "fst (handleFileUpload b ev w) = Inr ()"
    and "trace (snd (handleFileUpload b ev w)) =
           trace w @ [SetDisplay ''block'', SetInnerHTML ''Processing audio with AI...'',
                      SetClassName ''loading'',
                      ConsoleLog ''Starting serverless transcription...'',
                      Fetch (origin b @ ''/api/transcribe'')
                        \<lparr>req_method = ''POST'', req_body = [(''file'', f)]\<rparr>,
                      ConsoleError ''Transcription failed:'' err,
                      SetInnerHTML (''Error: '' @ message err @ troubleshooting),
                      SetClassName ''error'']"
    and "transcript_innerHTML (snd (handleFileUpload b ev w)) =
           ''Error: '' @ message err @ troubleshooting"
    and "transcript_className (snd (handleFileUpload b ev w)) = ''error''"
    by (simp_all add: showError_def showLoading_def page_writes TRANSCRIBE_URL_def
        API_BASE_URL_def)
  with err same same' show ?thesis by blast
qed

theorem failures_rendered_once_witness:
  "files selected = clip # [] \<and>
   fetch (answering (Inl (Thrown ''TypeError'' ''Failed to fetch'')))
     (origin (answering (Inl (Thrown ''TypeError'' ''Failed to fetch''))) @ ''/api/transcribe'')
     \<lparr>req_method = ''POST'', req_body = [(''file'', clip)]\<rparr>
     = Inl (Thrown ''TypeError'' ''Failed to fetch'') \<and>
   handleFileUpload (answering (Inl (Thrown ''TypeError'' ''Failed to fetch''))) selected idle =
     (Inr (),
      \<lparr>result_display = ''block'',
       transcript_innerHTML = ''Error: Failed to fetch'' @ troubleshooting,
       transcript_className = ''error'',
       trace = [SetDisplay ''block'', SetInnerHTML ''Processing audio with AI...'',
                SetClassName ''loading'',
                ConsoleLog ''Starting serverless transcription...'',
                Fetch ''https://example.test/api/transcribe''
                  \<lparr>req_method = ''POST'', req_body = [(''file'', clip)]\<rparr>,
                ConsoleError ''Transcription failed:'' (Thrown ''TypeError'' ''Failed to fetch''),
                SetInnerHTML (''Error: Failed to fetch'' @ troubleshooting),
                SetClassName ''error'']\<rparr>)"
proof -
  let ?b = "answering (Inl (Thrown ''TypeError'' ''Failed to fetch''))"
  have h: "files selected = clip # []" by (simp add: selected_def)
  have r: "fetch ?b (origin ?b @ ''/api/transcribe'')
             \<lparr>req_method = ''POST'', req_body = [(''file'', clip)]\<rparr>
           = Inl (Thrown ''TypeError'' ''Failed to fetch'')"
    by (simp add: answering_def)
  then have "(\<exists>e. fetch ?b (origin ?b @ ''/api/transcribe'')
                \<lparr>req_method = ''POST'', req_body = [(''file'', clip)]\<rparr> = Inl e)
       \<or> (\<exists>r. fetch ?b (origin ?b @ ''/api/transcribe'')
                \<lparr>req_method = ''POST'', req_body = [(''file'', clip)]\<rparr> = Inr r
              \<and> (status r < 200 \<or> 299 < status r))
       \<or> (\<exists>r e. fetch ?b (origin ?b @ ''/api/transcribe'')
                \<lparr>req_method = ''POST'', req_body = [(''file'', clip)]\<rparr> = Inr r
              \<and> 200 \<le> status r \<and> status r \<le> 299 \<and> json r = Inl e)"
    by blast
  from failures_rendered_once [OF h this, of idle]
  obtain err where e: "fst (handleFileUpload ?b selected idle) = Inr ()"
     "trace (snd (handleFileUpload ?b selected idle)) =
           trace idle @ [SetDisplay ''block'', SetInnerHTML ''Processing audio with AI...'',
                      SetClassName ''loading'',
                      ConsoleLog ''Starting serverless transcription...'',
                      Fetch (origin ?b @ ''/api/transcribe'')
                        \<lparr>req_method = ''POST'', req_body = [(''file'', clip)]\<rparr>,
                      ConsoleError ''Transcription failed:'' err,
                      SetInnerHTML (''Error: '' @ message err @ troubleshooting),
                      SetClassName ''error'']"
     "transcript_innerHTML (snd (handleFileUpload ?b selected idle)) =
           ''Error: '' @ message err @ troubleshooting"
     "transcript_className (snd (handleFileUpload ?b selected idle)) = ''error''"
     "\<forall>e. fetch ?b (origin ?b @ ''/api/transcribe'')
                \<lparr>req_method = ''POST'', req_body = [(''file'', clip)]\<rparr> = Inl e \<longrightarrow> err = e"
    by blast
  from e(5) r have err: "err = Thrown ''TypeError'' ''Failed to fetch''" by blast
  have d: "result_display (snd (handleFileUpload ?b selected idle)) = ''block''"
    using h by (simp add: handleFileUpload_def Let_def try_block_def transcribeWithServerless_def
        answering_def showLoading_def showError_def page_writes)
  have o: "origin ?b = ''https://example.test''" by (simp add: answering_def)
  have "snd (handleFileUpload ?b selected idle) =
      \<lparr>result_display = ''block'',
       transcript_innerHTML = ''Error: Failed to fetch'' @ troubleshooting,
       transcript_className = ''error'',
       trace = [SetDisplay ''block'', SetInnerHTML ''Processing audio with AI...'',
                SetClassName ''loading'',
                ConsoleLog ''Starting serverless transcription...'',
                Fetch ''https://example.test/api/transcribe''
                  \<lparr>req_method = ''POST'', req_body = [(''file'', clip)]\<rparr>,
                ConsoleError ''Transcription failed:'' (Thrown ''TypeError'' ''Failed to fetch''),
                SetInnerHTML (''Error: Failed to fetch'' @ troubleshooting),
                SetClassName ''error'']\<rparr>"
    using e(2,3,4) d err o by (simp add: idle_def)
  with e(1) h r show ?thesis by (simp add: prod_eq_iff)
qed

subsection \<open>The result area stays visible\<close>

lemma display_showResult: "result_display (snd (showResult b t w)) = result_display w"
  by (simp add: showResult_def page_writes split: sum.splits)

lemma display_try_block: "result_display (snd (try_block b f w)) = result_display w"
proof (cases "transcribeWithServerless b f w")
  case (Pair r w1)
  then have w1: "result_display w1 = result_display w"
    using snd_transcribe [of b f w] by (simp add: emit_def)
  show ?thesis
  proof (cases r)
    case (Inl e)
    with Pair w1 show ?thesis by (simp add: try_block_def)
  next
    case (Inr v)
    with Pair w1 show ?thesis
      by (simp add: try_block_def Let_def display_showResult emit_def split: sum.splits)
  qed
qed

lemma display_upload:
  "result_display (snd (handleFileUpload b ev w)) =
     (if files ev = [] then result_display w else ''block'')"
proof (cases "files ev")
  case Nil
  then show ?thesis by (simp add: handleFileUpload_def)
next
  case (Cons f rest)
  let ?w2 = "emit (ConsoleLog ''Starting serverless transcription...'') (showLoading w)"
  have "result_display (snd (try_block b f ?w2)) = ''block''"
    by (simp add: display_try_block) (simp add: showLoading_def page_writes)
  with Cons show ?thesis
    by (cases "try_block b f ?w2")
       (auto simp: handleFileUpload_def Let_def showError_def page_writes split: sum.splits)
qed

lemma display_perform:
  "result_display w = ''block'' \<Longrightarrow> result_display (perform x w) = ''block''"
  by (cases x)
     (simp_all add: showLoading_def showError_def page_writes display_showResult display_upload)

lemma display_run:
  "result_display w = ''block'' \<Longrightarrow> result_display (run xs w) = ''block''"
  by (induction xs arbitrary: w) (simp_all add: display_perform)

text \<open>
  C9. After an upload with a file, the result area's display is \<^verbatim>\<open>block\<close>, and it is
  still \<^verbatim>\<open>block\<close> after any further sequence of loading, success and error renders and
  uploads, with or without a file: nothing the script does hides the area again.
\<close>

theorem result_area_stays_visible:
  assumes "files ev = f # rest"
  shows "result_display (run xs (snd (handleFileUpload b ev w))) = ''block''"
  using assms by (simp add: display_run display_upload)

theorem result_area_stays_visible_witness:
  "files selected = clip # [] \<and>
   result_display idle = ''none'' \<and>
   result_display
     (run [ShowResult (replying 200 ''OK'' (Inr (JObj []))) (JStr ''hello world''),
           Upload (replying 503 ''Service Unavailable'' (Inr (JObj []))) selected,
           ShowError ''Failed to fetch'',
           Upload (replying 200 ''OK'' (Inr (JObj []))) cancelled,
           ShowLoading]
        (snd (handleFileUpload (replying 200 ''OK'' (Inr (JObj []))) selected idle))) = ''block''"
proof -
  have h: "files selected = clip # []" by (simp add: selected_def)
  show ?thesis
    using h result_area_stays_visible [OF h, of
        "[ShowResult (replying 200 ''OK'' (Inr (JObj []))) (JStr ''hello world''),
          Upload (replying 503 ''Service Unavailable'' (Inr (JObj []))) selected,
          ShowError ''Failed to fetch'',
          Upload (replying 200 ''OK'' (Inr (JObj []))) cancelled,
          ShowLoading]"
        "replying 200 ''OK'' (Inr (JObj []))" idle]
    by (simp add: idle_def)
qed

subsection \<open>The class after an upload\<close>

lemma className_try_block_ok:
  "fst (try_block b f w) = Inr u \<Longrightarrow> transcript_className (snd (try_block b f w)) = []"
  by (cases "transcribeWithServerless b f w")
     (auto simp: try_block_def Let_def showResult_def page_writes split: sum.splits)

text \<open>
  When the \<^verbatim>\<open>try\<close> block runs to its end: the response is ok, its body parses to a
  value whose \<^verbatim>\<open>transcription\<close> can be read (anything but \<^verbatim>\<open>null\<close>), and the text to
  show converts to a string.
\<close>

lemma try_block_completes_iff:
  "(\<exists>u. fst (try_block b f w) = Inr u) \<longleftrightarrow>
   (\<exists>r v t s. fetch b (TRANSCRIBE_URL b) \<lparr>req_method = ''POST'', req_body = [(''file'', f)]\<rparr> = Inr r
       \<and> ok r \<and> json r = Inr v \<and> get_property b v ''transcription'' = Inr t
       \<and> ToString b (js_or t (JStr ''No transcript generated.'')) = Inr s)"
  by (auto simp: try_block_def transcribeWithServerless_def showResult_def Let_def
           split: sum.splits)

text \<open>
  With a file present, the class of the transcript element after the handler is the
  empty string when the \<^verbatim>\<open>try\<close> block ran to its end and \<^verbatim>\<open>error\<close> when something
  in it threw.
\<close>

lemma class_follows_try_block:
  assumes "files ev = f # rest"
  shows "transcript_className (snd (handleFileUpload b ev w)) \<noteq> ''loading''
       \<and> (transcript_className (snd (handleFileUpload b ev w)) = [] \<longleftrightarrow>
            (\<exists>u. fst (try_block b f
               (emit (ConsoleLog ''Starting serverless transcription...'') (showLoading w))) = Inr u))
       \<and> (transcript_className (snd (handleFileUpload b ev w)) = ''error'' \<longleftrightarrow>
            (\<exists>e. fst (try_block b f
               (emit (ConsoleLog ''Starting serverless transcription...'') (showLoading w))) = Inl e))"
proof -
  let ?w2 = "emit (ConsoleLog ''Starting serverless transcription...'') (showLoading w)"
  show ?thesis
  proof (cases "try_block b f ?w2")
    case (Pair r w3)
    show ?thesis
    proof (cases r)
      case (Inl e)
      with Pair assms show ?thesis
        by (simp add: handleFileUpload_def Let_def showError_def page_writes)
    next
      case (Inr u)
      with Pair have "transcript_className w3 = []"
        using className_try_block_ok [of b f ?w2 u] by simp
      with Pair Inr assms show ?thesis
        by (simp add: handleFileUpload_def Let_def)
    qed
  qed
qed

text \<open>
  The class in terms of the response: never \<^verbatim>\<open>loading\<close>; empty exactly when
  \<^verbatim>\<open>fetch\<close> gave a response with a status from 200 to 299 whose body parses to a value
  of which \<^verbatim>\<open>transcription\<close> can be read and shown; \<^verbatim>\<open>error\<close> in every other case.
\<close>

lemma class_by_response:
  assumes "files ev = f # rest"
  shows "transcript_className (snd (handleFileUpload b ev w)) \<noteq> ''loading''
       \<and> (transcript_className (snd (handleFileUpload b ev w)) = [] \<longleftrightarrow>
            (\<exists>r v t s. fetch b (origin b @ ''/api/transcribe'')
                         \<lparr>req_method = ''POST'', req_body = [(''file'', f)]\<rparr> = Inr r
               \<and> 200 \<le> status r \<and> status r \<le> 299 \<and> json r = Inr v
               \<and> get_property b v ''transcription'' = Inr t
               \<and> ToString b (js_or t (JStr ''No transcript generated.'')) = Inr s))
       \<and> (transcript_className (snd (handleFileUpload b ev w)) = ''error'' \<longleftrightarrow>
            \<not> (\<exists>r v t s. fetch b (origin b @ ''/api/transcribe'')
                         \<lparr>req_method = ''POST'', req_body = [(''file'', f)]\<rparr> = Inr r
               \<and> 200 \<le> status r \<and> status r \<le> 299 \<and> json r = Inr v
               \<and> get_property b v ''transcription'' = Inr t
               \<and> ToString b (js_or t (JStr ''No transcript generated.'')) = Inr s))"
proof -
  let ?w2 = "emit (ConsoleLog ''Starting serverless transcription...'') (showLoading w)"
  let ?R = "\<exists>r v t s. fetch b (origin b @ ''/api/transcribe'')
                         \<lparr>req_method = ''POST'', req_body = [(''file'', f)]\<rparr> = Inr r
               \<and> 200 \<le> status r \<and> status r \<le> 299 \<and> json r = Inr v
               \<and> get_property b v ''transcription'' = Inr t
               \<and> ToString b (js_or t (JStr ''No transcript generated.'')) = Inr s"
  have completes: "(\<exists>u. fst (try_block b f ?w2) = Inr u) \<longleftrightarrow> ?R"
    using try_block_completes_iff [of b f ?w2]
    by (simp add: TRANSCRIBE_URL_def API_BASE_URL_def ok_def)
  have throws: "(\<exists>e. fst (try_block b f ?w2) = Inl e) \<longleftrightarrow> \<not> (\<exists>u. fst (try_block b f ?w2) = Inr u)"
    by (cases "fst (try_block b f ?w2)") simp_all
  from class_follows_try_block [OF assms, of b w] completes throws
  show ?thesis by simp
qed


subsection \<open>The message for a response that is not ok\<close>

lemma error_message_not_ok:
  assumes "fetch b (TRANSCRIBE_URL b)
             \<lparr>req_method = ''POST'', req_body = [(''file'', f)]\<rparr> = Inr r"
    and "\<not> ok r"
    and "get_property b (case json r of Inl e \<Rightarrow> JObj [] | Inr v \<Rightarrow> v) ''detail'' = Inr d"
    and "ToString b (js_or d (JStr ''Unknown error'')) = Inr s"
  shows "fst (transcribeWithServerless b f w) =
           Inl (Thrown ''Error'' (''Transcription failed: '' @ string_of_nat (status r) @ '' ''
                                   @ statusText r @ '' - '' @ s))"
  using assms by (simp add: transcribeWithServerless_def Let_def)

lemma rejection_rendered:
  assumes "files ev = f # rest"
    and "fetch b (TRANSCRIBE_URL b)
           \<lparr>req_method = ''POST'', req_body = [(''file'', f)]\<rparr> = Inr r"
    and "\<not> ok r"
    and "get_property b (case json r of Inl e \<Rightarrow> JObj [] | Inr v \<Rightarrow> v) ''detail'' = Inr d"
    and "ToString b (js_or d (JStr ''Unknown error'')) = Inr s"
  shows "transcript_innerHTML (snd (handleFileUpload b ev w)) =
           ''Error: Transcription failed: '' @ string_of_nat (status r) @ '' ''
           @ statusText r @ '' - '' @ s @ troubleshooting"
  using upload_failed [OF assms(1) error_message_not_ok [OF assms(2-5), of w], of w]
  by (simp add: showError_def page_writes)

text \<open>
  When the error body does not parse, or parses to an object, the rendered text holds
  the status, the status text, and the \<^verbatim>\<open>detail\<close> string or, without one,
  \<^verbatim>\<open>Unknown error\<close>.
\<close>

lemma rejection_text_contents:
  assumes "files ev = f # rest"
    and "fetch b (TRANSCRIBE_URL b)
           \<lparr>req_method = ''POST'', req_body = [(''file'', f)]\<rparr> = Inr r"
    and "\<not> ok r"
    and "json r = Inl e \<or> json r = Inr (JObj ps)"
    and "map_of ps ''detail'' = None \<or> map_of ps ''detail'' = Some (JStr t)"
  shows "sublist (string_of_nat (status r)) (transcript_innerHTML (snd (handleFileUpload b ev w)))
       \<and> sublist (statusText r) (transcript_innerHTML (snd (handleFileUpload b ev w)))
       \<and> (json r = Inr (JObj ps) \<and> map_of ps ''detail'' = Some (JStr t) \<longrightarrow>
            sublist t (transcript_innerHTML (snd (handleFileUpload b ev w))))
       \<and> (json r = Inl e \<or> map_of ps ''detail'' = None \<longrightarrow>
            sublist ''Unknown error'' (transcript_innerHTML (snd (handleFileUpload b ev w))))"
proof -
  let ?H = "transcript_innerHTML (snd (handleFileUpload b ev w))"
  define s where "s = (if json r = Inr (JObj ps) \<and> map_of ps ''detail'' = Some (JStr t) \<and> t \<noteq> []
                       then t else ''Unknown error'')"
  obtain d where d: "get_property b (case json r of Inl e \<Rightarrow> JObj [] | Inr v \<Rightarrow> v) ''detail'' = Inr d"
      and s: "ToString b (js_or d (JStr ''Unknown error'')) = Inr s"
    using assms(4,5) by (auto simp: js_or_def s_def)
  have H: "?H = ''Error: Transcription failed: '' @ string_of_nat (status r) @ '' ''
           @ statusText r @ '' - '' @ s @ troubleshooting"
    by (rule rejection_rendered [OF assms(1-3) d s])
  have "?H = ''Error: Transcription failed: '' @ string_of_nat (status r)
               @ ('' '' @ statusText r @ '' - '' @ s @ troubleshooting)"
    using H by simp
  then have 1: "sublist (string_of_nat (status r)) ?H"
    by (simp only: sublist_appendI)
  have "?H = (''Error: Transcription failed: '' @ string_of_nat (status r) @ '' '')
               @ statusText r @ ('' - '' @ s @ troubleshooting)"
    using H by simp
  then have 2: "sublist (statusText r) ?H"
    by (simp only: sublist_appendI)
  have "?H = (''Error: Transcription failed: '' @ string_of_nat (status r) @ '' ''
               @ statusText r @ '' - '') @ s @ troubleshooting"
    using H by simp
  then have 3: "sublist s ?H"
    by (simp only: sublist_appendI)
  have 4: "sublist t ?H" if "json r = Inr (JObj ps) \<and> map_of ps ''detail'' = Some (JStr t)"
    using that 3 by (cases "t = []") (simp_all add: s_def)
  have 5: "sublist ''Unknown error'' ?H" if "json r = Inl e \<or> map_of ps ''detail'' = None"
    using that 3 by (auto simp: s_def)
  from 1 2 4 5 show ?thesis by blast
qed

text \<open>The example of the specification: 413, Payload Too Large, file too large.\<close>

lemma payload_too_large_example:
  "transcript_innerHTML (snd (handleFileUpload
      (replying 413 ''Payload Too Large'' (Inr (JObj [(''detail'', JStr ''file too large'')])))
      selected idle)) =
     ''Error: Transcription failed: 413 Payload Too Large - file too large'' @ troubleshooting"
  by code_simp

lemma unparseable_body_example:
  "transcript_innerHTML (snd (handleFileUpload
      (replying 502 ''Bad Gateway'' (Inl (Thrown ''SyntaxError'' ''Unexpected token <'')))
      selected idle)) =
     ''Error: Transcription failed: 502 Bad Gateway - Unknown error'' @ troubleshooting"
  by code_simp

text \<open>
  C3. A response that is not ok and whose body is the JSON value \<^verbatim>\<open>null\<close>: the body
  parses, so the empty object does not replace it, and reading \<^verbatim>\<open>detail\<close> of
  \<^verbatim>\<open>null\<close> throws before the message with the status is built. For status 500,
  Internal Server Error, the rendered text is the engine's \<^verbatim>\<open>TypeError\<close> message in
  the troubleshooting template, and it contains neither \<^verbatim>\<open>500\<close> nor
  \<^verbatim>\<open>Internal Server Error\<close>.
\<close>

theorem status_lost_on_null_body:
  "transcript_innerHTML (snd (handleFileUpload
      (replying 500 ''Internal Server Error'' (Inr Null)) selected idle)) =
     ''Error: Cannot read properties of null (reading '' @ [CHR 0x27] @ ''detail'' @ [CHR 0x27]
       @ '')'' @ troubleshooting
   \<and> \<not> sublist ''500'' (transcript_innerHTML (snd (handleFileUpload
      (replying 500 ''Internal Server Error'' (Inr Null)) selected idle)))
   \<and> \<not> sublist ''Internal Server Error'' (transcript_innerHTML (snd (handleFileUpload
      (replying 500 ''Internal Server Error'' (Inr Null)) selected idle)))"
  by code_simp

text \<open>
  C4. The same body under status 502, Bad Gateway: the parsed body \<^verbatim>\<open>null\<close> has no
  \<^verbatim>\<open>detail\<close> field, the response is not ok, and the rendered text does not contain
  \<^verbatim>\<open>Unknown error\<close>.
\<close>

theorem unknown_error_lost_on_null_body:
  "\<not> ok \<lparr>status = 502, statusText = ''Bad Gateway'', json = Inr Null\<rparr>
   \<and> fst (transcribeWithServerless (replying 502 ''Bad Gateway'' (Inr Null)) clip idle)
       = Inl (Thrown ''TypeError''
           (''Cannot read properties of null (reading '' @ [CHR 0x27] @ ''detail''
            @ [CHR 0x27] @ '')''))
   \<and> \<not> sublist ''Unknown error'' (transcript_innerHTML (snd (handleFileUpload
      (replying 502 ''Bad Gateway'' (Inr Null)) selected idle)))"
  by code_simp

end
